theory Spec2Isabelle
  imports Complex_Main "HOL-Library.Sublist"
begin

section \<open>The outside world\<close>

text \<open>
  The scripts talk to three kinds of collaborators: shell commands, HTTP endpoints and
  files. Each is modelled as data handed to the functions: what a command returns, what
  an endpoint answers. Timestamps are integer counts of microseconds. Python floats are
  idealised as rationals: a value that the code computes in double precision can differ
  from the model's in the last digit, and a comparison of two values that are equal as
  rationals can come out differently in the code.
\<close>

datatype py_error = TypeError | ValueError | ZeroDivisionError | OSError

text \<open>
  A call of \<open>requests.get\<close> / \<open>requests.post\<close> either raises (with the text of the
  exception) or yields a response with a status code and a body.
\<close>

datatype 'b http_result = Raised string | Response int 'b

text \<open>
  What \<open>response.json()\<close> of the health endpoint gives: it raises, or it is an object
  whose \<open>status\<close> entry is the given string (if any) and whose \<open>model_loaded\<close> entry
  has the given truth value.
\<close>

datatype health_json = NotJson string | HealthDoc "string option" bool

text \<open>
  The body of the prediction endpoint as \<open>test_prediction_endpoint\<close> reads it: whether
  the keys are present, and the confidence as a number or as something that cannot be
  compared with \<open>0\<close>.
\<close>

datatype conf_val = Num rat | NonNum string

datatype predict_json = BadJson string | PredictDoc bool "conf_val option"

section \<open>deploy.py\<close>

text \<open>
  \<open>subprocess.run\<close> either cannot run the command at all or ends with an exit code.
  The answer of a command may depend on the commands run before it.
\<close>

datatype proc_result = NotStarted string | Exited int

type_synonym shell = "string list \<Rightarrow> string \<Rightarrow> proc_result"

datatype status = PASS | FAIL | SKIP

datatype message =
    Fixed string
  | HttpStatus int
  | ExcText string
  | InvalidResponse health_json
  | PredictionWorks rat
  | ZeroConfidence rat
  | InvalidFormat predict_json
  | NotRunningOptional string

type_synonym probe_result = "string \<times> status \<times> message"

text \<open>
  The observable effects of a deployment: the commands given to \<open>subprocess.run\<close> in
  order, the number of health polls made, and the results recorded by the smoke tests.
\<close>

record world =
  executed :: "string list"
  health_polls :: nat
  probes_run :: "probe_result list"

record env =
  shell_of :: shell
  health_poll :: "nat \<Rightarrow> health_json http_result"
  smoke_import_ok :: bool
  smoke_health :: "health_json http_result"
  smoke_predict :: "predict_json http_result"
  smoke_metrics :: "string http_result"
  smoke_service :: "string \<Rightarrow> unit http_result"

text \<open>
  \<open>run_command\<close>: with \<open>check\<close> set a non-zero exit raises \<open>CalledProcessError\<close>, which
  the handler turns into \<open>False\<close>; otherwise the exit code is compared with \<open>0\<close>.
\<close>

definition run_command :: "shell \<Rightarrow> string \<Rightarrow> bool \<Rightarrow> world \<Rightarrow> bool \<times> world" where
  "run_command sh command check w =
     ((case sh (executed w) command of
         NotStarted e \<Rightarrow> False
       | Exited returncode \<Rightarrow>
           if check \<and> returncode \<noteq> 0 then False
           else if returncode = 0 then True else False),
      w\<lparr>executed := executed w @ [command]\<rparr>)"

text \<open>The loop \<open>for cmd in commands: if not self.run_command(cmd): return False\<close>.\<close>

fun run_commands :: "shell \<Rightarrow> string list \<Rightarrow> world \<Rightarrow> bool \<times> world" where
  "run_commands sh [] w = (True, w)"
| "run_commands sh (cmd # cmds) w =
     (case run_command sh cmd True w of
        (ok, w') \<Rightarrow> if \<not> ok then (False, w') else run_commands sh cmds w')"

definition docker_commands :: "string list" where
  "docker_commands =
     [''docker-compose down'', ''docker-compose build --no-cache'', ''docker-compose up -d'']"

definition k8s_commands :: "string list" where
  "k8s_commands =
     [''kubectl apply -f k8s/'',
      ''kubectl rollout status deployment/cats-dogs-inference'',
      ''kubectl get services'']"

definition deploy_docker_compose :: "shell \<Rightarrow> world \<Rightarrow> bool \<times> world" where
  "deploy_docker_compose sh w = run_commands sh docker_commands w"

definition deploy_kubernetes :: "shell \<Rightarrow> world \<Rightarrow> bool \<times> world" where
  "deploy_kubernetes sh w = run_commands sh k8s_commands w"

text \<open>
  \<open>wait_for_deployment\<close>: the loop over \<open>range(max_wait // 10)\<close>. A poll ends the wait
  when its status code is 200; the body is not read. An exception is swallowed.
\<close>

fun wait_loop :: "(nat \<Rightarrow> health_json http_result) \<Rightarrow> nat list \<Rightarrow> world \<Rightarrow> bool \<times> world" where
  "wait_loop h [] w = (False, w)"
| "wait_loop h (i # rest) w =
     (let w' = w\<lparr>health_polls := Suc (health_polls w)\<rparr> in
      case h i of
        Response status_code body \<Rightarrow>
          if status_code = 200 then (True, w') else wait_loop h rest w'
      | Raised e \<Rightarrow> wait_loop h rest w')"

definition wait_for_deployment :: "env \<Rightarrow> int \<Rightarrow> world \<Rightarrow> bool \<times> world" where
  "wait_for_deployment e max_wait w =
     wait_loop (health_poll e) [0 ..< nat (max_wait div 10)] w"

section \<open>smoke_tests.py\<close>

text \<open>
  Each probe takes the answer of its request and the results recorded so far, and gives
  back its own verdict and the results with one entry more.
\<close>

definition test_health_endpoint ::
  "health_json http_result \<Rightarrow> probe_result list \<Rightarrow> bool \<times> probe_result list" where
  "test_health_endpoint r test_results =
     (case r of
        Raised e \<Rightarrow> (False, test_results @ [(''Health Check'', FAIL, ExcText e)])
      | Response status_code body \<Rightarrow>
          if status_code = 200 then
            (case body of
               NotJson e \<Rightarrow> (False, test_results @ [(''Health Check'', FAIL, ExcText e)])
             | HealthDoc st model_loaded \<Rightarrow>
                 if st = Some ''healthy'' \<and> model_loaded
                 then (True, test_results @ [(''Health Check'', PASS, Fixed ''Service is healthy'')])
                 else (False, test_results @ [(''Health Check'', FAIL, InvalidResponse body)]))
          else (False, test_results @ [(''Health Check'', FAIL, HttpStatus status_code)]))"

text \<open>
  For the prediction probe \<open>Raised\<close> also stands for a failure to create or open the
  test image, which the same handler catches.
\<close>

definition test_prediction_endpoint ::
  "predict_json http_result \<Rightarrow> probe_result list \<Rightarrow> bool \<times> probe_result list" where
  "test_prediction_endpoint r test_results =
     (case r of
        Raised e \<Rightarrow> (False, test_results @ [(''Prediction'', FAIL, ExcText e)])
      | Response status_code body \<Rightarrow>
          if status_code = 200 then
            (case body of
               BadJson e \<Rightarrow> (False, test_results @ [(''Prediction'', FAIL, ExcText e)])
             | PredictDoc has_class None \<Rightarrow>
                 (False, test_results @ [(''Prediction'', FAIL, InvalidFormat body)])
             | PredictDoc has_class (Some c) \<Rightarrow>
                 if has_class then
                   (case c of
                      NonNum e \<Rightarrow> (False, test_results @ [(''Prediction'', FAIL, ExcText e)])
                    | Num confidence \<Rightarrow>
                        if confidence > 0
                        then (True, test_results @ [(''Prediction'', PASS, PredictionWorks confidence)])
                        else (False, test_results @ [(''Prediction'', FAIL, ZeroConfidence confidence)]))
                 else (False, test_results @ [(''Prediction'', FAIL, InvalidFormat body)]))
          else (False, test_results @ [(''Prediction'', FAIL, HttpStatus status_code)]))"

definition test_metrics_endpoint ::
  "string http_result \<Rightarrow> probe_result list \<Rightarrow> bool \<times> probe_result list" where
  "test_metrics_endpoint r test_results =
     (case r of
        Raised e \<Rightarrow> (False, test_results @ [(''Metrics'', FAIL, ExcText e)])
      | Response status_code text \<Rightarrow>
          if status_code = 200 \<and> sublist ''inference_requests_total'' text
          then (True, test_results @ [(''Metrics'', PASS, Fixed ''Metrics endpoint working'')])
          else (False, test_results @ [(''Metrics'', FAIL, Fixed ''Metrics not available'')]))"

definition monitoring_services :: "(string \<times> string) list" where
  "monitoring_services =
     [(''Grafana'', ''http://localhost:3000''),
      (''Prometheus'', ''http://localhost:9090''),
      (''MLflow'', ''http://localhost:5000'')]"

text \<open>
  The loop of \<open>test_monitoring_services\<close>, with \<open>all_pass\<close> and the recorded results as
  the state it updates.
\<close>

fun services_loop ::
  "(string \<Rightarrow> unit http_result) \<Rightarrow> (string \<times> string) list \<Rightarrow> bool \<Rightarrow> probe_result list
     \<Rightarrow> bool \<times> probe_result list" where
  "services_loop get [] all_pass test_results = (all_pass, test_results)"
| "services_loop get ((service_name, url) # rest) all_pass test_results =
     (case get url of
        Response status_code body \<Rightarrow>
          if status_code = 200
          then services_loop get rest all_pass
                 (test_results @ [(service_name, PASS, Fixed ''Service accessible'')])
          else services_loop get rest False
                 (test_results @ [(service_name, FAIL, HttpStatus status_code)])
      | Raised e \<Rightarrow>
          if service_name = ''MLflow''
          then services_loop get rest all_pass
                 (test_results @ [(service_name, SKIP, NotRunningOptional (take 50 e))])
          else services_loop get rest False
                 (test_results @ [(service_name, FAIL, ExcText e)]))"

definition test_monitoring_services ::
  "(string \<Rightarrow> unit http_result) \<Rightarrow> probe_result list \<Rightarrow> bool \<times> probe_result list" where
  "test_monitoring_services get test_results =
     services_loop get monitoring_services True test_results"

text \<open>The counting loop of \<open>run_all_tests\<close>: the counters are (passed, failed, skipped).\<close>

fun tally :: "probe_result list \<Rightarrow> nat \<times> nat \<times> nat \<Rightarrow> nat \<times> nat \<times> nat" where
  "tally [] counters = counters"
| "tally ((test_name, st, msg) # rest) (passed, failed, skipped) =
     tally rest
       (if st = PASS then (Suc passed, failed, skipped)
        else if st = FAIL then (passed, Suc failed, skipped)
        else (passed, failed, Suc skipped))"

text \<open>The answer of \<open>run_all_tests\<close> on the recorded results: \<open>failed == 0\<close>.\<close>

definition verdict :: "probe_result list \<Rightarrow> bool" where
  "verdict test_results = (case tally test_results (0, 0, 0) of (passed, failed, skipped) \<Rightarrow> failed = 0)"

definition run_all_tests :: "env \<Rightarrow> probe_result list \<Rightarrow> bool \<times> probe_result list" where
  "run_all_tests e test_results =
     (let r1 = snd (test_health_endpoint (smoke_health e) test_results);
          r2 = snd (test_prediction_endpoint (smoke_predict e) r1);
          r3 = snd (test_metrics_endpoint (smoke_metrics e) r2);
          r4 = snd (test_monitoring_services (smoke_service e) r3)
      in (verdict r4, r4))"

section \<open>deploy.py, continued: the deployment itself\<close>

text \<open>
  \<open>run_smoke_tests\<close> imports the suite, builds a fresh \<open>SmokeTest\<close> and runs it; a failing
  import is caught and reported as \<open>False\<close>.
\<close>

definition run_smoke_tests :: "env \<Rightarrow> world \<Rightarrow> bool \<times> world" where
  "run_smoke_tests e w =
     (if smoke_import_ok e
      then (case run_all_tests e [] of (ok, rs) \<Rightarrow> (ok, w\<lparr>probes_run := rs\<rparr>))
      else (False, w))"

text \<open>The part of \<open>deploy\<close> after the provisioning commands.\<close>

definition deploy_verify :: "env \<Rightarrow> bool \<Rightarrow> world \<Rightarrow> bool \<times> world" where
  "deploy_verify e run_tests w =
     (case wait_for_deployment e 300 w of
        (ready, w1) \<Rightarrow>
          if \<not> ready then (False, w1)
          else if run_tests then
            (case run_smoke_tests e w1 of
               (ok, w2) \<Rightarrow> if \<not> ok then (False, w2) else (True, w2))
          else (True, w1))"

definition deploy :: "env \<Rightarrow> string \<Rightarrow> bool \<Rightarrow> world \<Rightarrow> bool \<times> world" where
  "deploy e deployment_type run_tests w =
     (if deployment_type = ''docker'' then
        (case deploy_docker_compose (shell_of e) w of
           (ok, w1) \<Rightarrow> if \<not> ok then (False, w1) else deploy_verify e run_tests w1)
      else if deployment_type = ''k8s'' then
        (case deploy_kubernetes (shell_of e) w of
           (ok, w1) \<Rightarrow> if \<not> ok then (False, w1) else deploy_verify e run_tests w1)
      else (False, w))"

definition rollback :: "env \<Rightarrow> string \<Rightarrow> world \<Rightarrow> world" where
  "rollback e deployment_type w =
     (if deployment_type = ''docker''
      then snd (run_command (shell_of e) ''docker-compose down'' True w)
      else if deployment_type = ''k8s''
      then snd (run_command (shell_of e) ''kubectl rollout undo deployment/cats-dogs-inference'' True w)
      else w)"

section \<open>model_monitor.py\<close>

text \<open>
  An entry of the prediction log, with the keys of the dictionary that \<open>log_prediction\<close>
  builds. \<open>None\<close> stands for Python's \<open>None\<close>.
\<close>

record prediction_entry =
  timestamp :: int
  image_path :: string
  predicted_class :: string
  actual_class :: "string option"
  confidence :: "rat option"
  correct :: "bool option"

text \<open>
  The document that \<open>_save_logs\<close> writes to the log file, with its keys \<open>last_updated\<close>,
  \<open>total_predictions\<close> and \<open>predictions\<close>.
\<close>

record log_document =
  doc_last_updated :: int
  doc_total_predictions :: nat
  doc_predictions :: "prediction_entry list"

text \<open>
  A file that the scripts write with \<open>open(..., 'w')\<close> and \<open>json.dump\<close> holds a whole
  document, or it is damaged: opened, and thereby emptied, but not written to the end.
  Writing it ends in one of three ways: the document is written, the file cannot be
  opened and stays as it was, or the dump fails after the file has been opened.
\<close>

datatype 'd file_content = Document 'd | Damaged

datatype write_result = Written | OpenFailed | DumpFailed

text \<open>The monitor object and its file; \<open>log_file\<close> is \<open>None\<close> while the file does not exist.\<close>

record monitor =
  predictions_log :: "prediction_entry list"
  log_file :: "log_document file_content option"

text \<open>Python's truth value of an optional string: \<open>None\<close> and the empty string are false.\<close>

definition truthy :: "string option \<Rightarrow> bool" where
  "truthy s = (case s of None \<Rightarrow> False | Some v \<Rightarrow> v \<noteq> [])"

text \<open>
  \<open>_save_logs\<close> at time \<open>now\<close>. How the write ends is a fact of the file system
  (\<open>outcome\<close>). A failure is logged and swallowed: the file stays as it was when it
  cannot be opened, and is left damaged when the dump fails.
\<close>

definition save_logs :: "write_result \<Rightarrow> int \<Rightarrow> monitor \<Rightarrow> monitor" where
  "save_logs outcome now m =
     (case outcome of
        Written \<Rightarrow>
          m\<lparr>log_file := Some (Document \<lparr>doc_last_updated = now,
                                          doc_total_predictions = length (predictions_log m),
                                          doc_predictions = predictions_log m\<rparr>)\<rparr>
      | OpenFailed \<Rightarrow> m
      | DumpFailed \<Rightarrow> m\<lparr>log_file := Some Damaged\<rparr>)"

text \<open>
  \<open>log_prediction\<close>: the entry is appended and saved, then the message for the logger is
  formatted with \<open>{confidence:.2f}\<close>, which raises \<open>TypeError\<close> when the confidence is
  \<open>None\<close>. The result is the fault raised (if any) and the monitor after the call.
\<close>

definition log_prediction ::
  "write_result \<Rightarrow> int \<Rightarrow> int \<Rightarrow> string \<Rightarrow> string \<Rightarrow> string option \<Rightarrow> rat option \<Rightarrow> monitor
     \<Rightarrow> (py_error + unit) \<times> monitor" where
  "log_prediction outcome now now_save path predicted actual conf m =
     (let entry = \<lparr>timestamp = now,
                   image_path = path,
                   predicted_class = predicted,
                   actual_class = actual,
                   confidence = conf,
                   correct = (if truthy actual then Some (actual = Some predicted) else None)\<rparr>;
          m1 = m\<lparr>predictions_log := predictions_log m @ [entry]\<rparr>;
          m2 = save_logs outcome now_save m1
      in (case conf of None \<Rightarrow> Inl TypeError | Some c \<Rightarrow> Inr (), m2))"

text \<open>Division as Python has it: a zero divisor raises.\<close>

definition py_div :: "rat \<Rightarrow> rat \<Rightarrow> py_error + rat" where
  "py_div a b = (if b = 0 then Inl ZeroDivisionError else Inr (a / b))"

text \<open>The values of a column in order of first appearance (pandas' \<open>unique\<close>).\<close>

fun unique :: "'a list \<Rightarrow> 'a list" where
  "unique [] = []"
| "unique (x # xs) = x # unique (filter (\<lambda>y. y \<noteq> x) xs)"

definition count_correct :: "prediction_entry list \<Rightarrow> nat" where
  "count_correct df = length (filter (\<lambda>p. correct p = Some True) df)"

fun labels_of :: "prediction_entry list \<Rightarrow> string list" where
  "labels_of [] = []"
| "labels_of (p # ps) =
     (case actual_class p of None \<Rightarrow> labels_of ps | Some c \<Rightarrow> c # labels_of ps)"

fun present :: "'a option list \<Rightarrow> 'a list" where
  "present [] = []"
| "present (None # vs) = present vs"
| "present (Some v # vs) = v # present vs"

text \<open>The loop that fills \<open>class_accuracy\<close>, one class after the other.\<close>

fun class_accuracy_loop ::
  "prediction_entry list \<Rightarrow> string list \<Rightarrow> (string \<times> rat) list \<Rightarrow> py_error + (string \<times> rat) list" where
  "class_accuracy_loop df [] class_acc = Inr class_acc"
| "class_accuracy_loop df (class_name # rest) class_acc =
     (let class_df = filter (\<lambda>p. actual_class p = Some class_name) df;
          class_correct = count_correct class_df;
          class_total = length class_df
      in case py_div (of_nat class_correct) (of_nat class_total) of
           Inl err \<Rightarrow> Inl err
         | Inr q \<Rightarrow> class_accuracy_loop df rest (class_acc @ [(class_name, q * 100)]))"

record snapshot =
  overall_accuracy :: rat
  total_predictions :: nat
  recent_accuracy_24h :: rat
  recent_predictions_24h :: nat
  average_confidence :: "rat option"
  confidence_min :: "rat option"
  confidence_max :: "rat option"
  class_accuracy :: "(string \<times> rat) list"
  last_updated :: int

definition hours24 :: int where
  "hours24 = 24 * 3600 * 1000000"

text \<open>
  \<open>get_performance_metrics\<close>: \<open>now\<close> is the clock read for the cutoff, \<open>stamp\<close> the one
  read for \<open>last_updated\<close>. \<open>Inr None\<close> is the empty dictionary. Confidence statistics
  skip missing values, as pandas does, and are \<open>None\<close> (not a number) when all are
  missing.
\<close>

definition average_of :: "rat list \<Rightarrow> rat option" where
  "average_of confs = (if confs = [] then None else Some (sum_list confs / of_nat (length confs)))"

definition smallest_of :: "rat list \<Rightarrow> rat option" where
  "smallest_of confs = (case confs of [] \<Rightarrow> None | c # cs \<Rightarrow> Some (fold min cs c))"

definition largest_of :: "rat list \<Rightarrow> rat option" where
  "largest_of confs = (case confs of [] \<Rightarrow> None | c # cs \<Rightarrow> Some (fold max cs c))"

text \<open>The recent accuracy: \<open>0\<close> unless there are recent predictions.\<close>

definition recent_accuracy_of :: "prediction_entry list \<Rightarrow> py_error + rat" where
  "recent_accuracy_of recent_predictions =
     (if recent_predictions \<noteq> [] then
        (let recent_correct = length (filter (\<lambda>p. correct p = Some True) recent_predictions)
         in case py_div (of_nat recent_correct) (of_nat (length recent_predictions)) of
              Inl err \<Rightarrow> Inl err
            | Inr r \<Rightarrow> Inr (r * 100))
      else Inr 0)"

definition get_performance_metrics :: "int \<Rightarrow> int \<Rightarrow> monitor \<Rightarrow> py_error + snapshot option" where
  "get_performance_metrics now stamp m =
     (if predictions_log m = [] then Inr None
      else
        let labeled_predictions = filter (\<lambda>p. truthy (actual_class p)) (predictions_log m) in
        if labeled_predictions = [] then Inr None
        else
          let df = labeled_predictions;
              total = length df;
              confs = present (map confidence df);
              recent_cutoff = now - hours24;
              recent_predictions = filter (\<lambda>p. recent_cutoff < timestamp p) labeled_predictions
          in case py_div (of_nat (count_correct df)) (of_nat total) of
               Inl err \<Rightarrow> Inl err
             | Inr q \<Rightarrow>
                 (case class_accuracy_loop df (unique (labels_of df)) [] of
                    Inl err \<Rightarrow> Inl err
                  | Inr class_acc \<Rightarrow>
                      (case recent_accuracy_of recent_predictions of
                         Inl err \<Rightarrow> Inl err
                       | Inr recent_accuracy \<Rightarrow>
                           Inr (Some \<lparr>overall_accuracy = q * 100,
                                      total_predictions = total,
                                      recent_accuracy_24h = recent_accuracy,
                                      recent_predictions_24h = length recent_predictions,
                                      average_confidence = average_of confs,
                                      confidence_min = smallest_of confs,
                                      confidence_max = largest_of confs,
                                      class_accuracy = class_acc,
                                      last_updated = stamp\<rparr>))))"

definition check_model_drift :: "int \<Rightarrow> int \<Rightarrow> rat \<Rightarrow> monitor \<Rightarrow> py_error + bool" where
  "check_model_drift now stamp threshold m =
     (case get_performance_metrics now stamp m of
        Inl err \<Rightarrow> Inl err
      | Inr None \<Rightarrow> Inr False
      | Inr (Some metrics) \<Rightarrow>
          let overall_acc = overall_accuracy metrics;
              recent_acc = recent_accuracy_24h metrics
          in if recent_acc = 0 then Inr False
             else let drift = overall_acc - recent_acc
                  in if drift > threshold then Inr True else Inr False)"

section \<open>post_deployment_eval.py\<close>

text \<open>A prediction as \<open>predict_batch\<close> records it.\<close>

record api_prediction =
  ap_image_path :: string
  ap_predicted_class :: string
  ap_confidence :: rat
  ap_probabilities :: "(string \<times> rat) list"

text \<open>
  The body of a prediction response: \<open>None\<close> when \<open>response.json()\<close> or one of the three
  key lookups raises, else the class, the confidence and the probabilities.
\<close>

type_synonym predict_body = "(string \<times> rat \<times> (string \<times> rat) list) option"

record evaluation_summary =
  ev_overall_accuracy :: rat
  ev_average_confidence :: rat
  ev_total_predictions :: nat
  correct_predictions :: nat
  cat_accuracy :: rat
  dog_accuracy :: rat
  cat_correct :: nat
  dog_correct :: nat
  cat_total :: nat
  dog_total :: nat
  ev_timestamp :: int

text \<open>
  What an evaluation run meets: the \<open>*.jpg\<close> files of a class directory (\<open>None\<close> when
  the directory does not exist), the prediction endpoint, how writing the output file
  ends, and the clock.
\<close>

record eval_env =
  test_dir :: "string \<Rightarrow> string list option"
  api :: "string \<Rightarrow> predict_body http_result"
  output_write :: write_result
  clock :: int

fun load_classes :: "(string \<Rightarrow> string list option) \<Rightarrow> string list \<Rightarrow> string list \<times> string list" where
  "load_classes dir [] = ([], [])"
| "load_classes dir (class_name # rest) =
     (let here = (case dir class_name of None \<Rightarrow> [] | Some files \<Rightarrow> files);
          (image_paths, true_labels) = load_classes dir rest
      in (here @ image_paths, replicate (length here) class_name @ true_labels))"

definition load_test_data :: "eval_env \<Rightarrow> string list \<times> string list" where
  "load_test_data e = load_classes (test_dir e) [''cat'', ''dog'']"

text \<open>\<open>predict_batch\<close>: a request that fails in any way leaves no prediction behind.\<close>

fun predict_batch :: "(string \<Rightarrow> predict_body http_result) \<Rightarrow> string list \<Rightarrow> api_prediction list" where
  "predict_batch post [] = []"
| "predict_batch post (img_path # rest) =
     (case post img_path of
        Raised e \<Rightarrow> predict_batch post rest
      | Response status_code body \<Rightarrow>
          if status_code = 200 then
            (case body of
               None \<Rightarrow> predict_batch post rest
             | Some (cls, conf, probs) \<Rightarrow>
                 \<lparr>ap_image_path = img_path, ap_predicted_class = cls,
                  ap_confidence = conf, ap_probabilities = probs\<rparr> # predict_batch post rest)
          else predict_batch post rest)"

definition evaluate_performance ::
  "int \<Rightarrow> api_prediction list \<Rightarrow> string list \<Rightarrow> py_error + evaluation_summary" where
  "evaluate_performance now predictions true_labels =
     (if length predictions \<noteq> length true_labels then Inl ValueError
      else
        let pairs = zip predictions true_labels;
            correct_count = length (filter (\<lambda>(pred, true_label). ap_predicted_class pred = true_label) pairs);
            total = length predictions;
            confidences = map (\<lambda>(pred, true_label). ap_confidence pred) pairs;
            accuracy = (if total > 0 then of_nat correct_count / of_nat total else 0);
            avg_confidence =
              (if confidences \<noteq> [] then sum_list confidences / of_nat (length confidences) else 0);
            cat_c = length (filter (\<lambda>(pred, true_label).
                       ap_predicted_class pred = ''cat'' \<and> true_label = ''cat'') pairs);
            dog_c = length (filter (\<lambda>(pred, true_label).
                       ap_predicted_class pred = ''dog'' \<and> true_label = ''dog'') pairs);
            cat_t = length (filter (\<lambda>true_label. true_label = ''cat'') true_labels);
            dog_t = length (filter (\<lambda>true_label. true_label = ''dog'') true_labels)
        in Inr \<lparr>ev_overall_accuracy = accuracy,
                ev_average_confidence = avg_confidence,
                ev_total_predictions = total,
                correct_predictions = correct_count,
                cat_accuracy = (if cat_t > 0 then of_nat cat_c / of_nat cat_t else 0),
                dog_accuracy = (if dog_t > 0 then of_nat dog_c / of_nat dog_t else 0),
                cat_correct = cat_c,
                dog_correct = dog_c,
                cat_total = cat_t,
                dog_total = dog_t,
                ev_timestamp = now\<rparr>)"

text \<open>
  \<open>run_evaluation\<close>, with the output file as state (\<open>None\<close> while it does not exist). The
  result is the fault that leaves the function, or what it returns: \<open>None\<close> when there
  are no test images, else the summary. \<open>save_results\<close> catches nothing, so a write that
  fails leaves the function as \<open>OSError\<close>.
\<close>

definition run_evaluation ::
  "eval_env \<Rightarrow> bool \<Rightarrow> evaluation_summary file_content option
     \<Rightarrow> (py_error + evaluation_summary option) \<times> evaluation_summary file_content option" where
  "run_evaluation e save_to_file output_file =
     (case load_test_data e of
        (image_paths, true_labels) \<Rightarrow>
          if image_paths = [] then (Inr None, output_file)
          else
            (let predictions = predict_batch (api e) image_paths in
             (case evaluate_performance (clock e) predictions true_labels of
                Inl err \<Rightarrow> (Inl err, output_file)
              | Inr results \<Rightarrow>
                  if save_to_file then
                    (case output_write e of
                       Written \<Rightarrow> (Inr (Some results), Some (Document results))
                     | OpenFailed \<Rightarrow> (Inl OSError, output_file)
                     | DumpFailed \<Rightarrow> (Inl OSError, Some Damaged))
                  else (Inr (Some results), output_file))))"

section \<open>The specification's reading of two contracts\<close>

text \<open>
  What the specification calls a healthy poll while waiting for the deployment: a success status and a
  body that reports \<open>healthy\<close> with the model loaded. This predicate follows the
  specification; \<open>wait_loop\<close> above is what the code does.
\<close>

definition spec_healthy_poll :: "health_json http_result \<Rightarrow> bool" where
  "spec_healthy_poll r =
     (case r of
        Response status_code (HealthDoc st model_loaded) \<Rightarrow>
          status_code = 200 \<and> st = Some ''healthy'' \<and> model_loaded
      | _ \<Rightarrow> False)"

text \<open>
  The specification's rule for one auxiliary service: Pass on 200, Fail on any other
  status; an unreachable service is Skip when it is the optional one and Fail otherwise.
\<close>

definition spec_service_status :: "bool \<Rightarrow> unit http_result \<Rightarrow> status" where
  "spec_service_status optional r =
     (case r of
        Response status_code body \<Rightarrow> if status_code = 200 then PASS else FAIL
      | Raised e \<Rightarrow> if optional then SKIP else FAIL)"

text \<open>
The name and the status of a recorded result, without its message.
\<close>

definition name_status :: "probe_result \<Rightarrow> string \<times> status" where
  "name_status r = (fst r, fst (snd r))"

section \<open>Concrete inputs\<close>

text \<open>
  Worlds, endpoints and logs on which the theorems below are instantiated.
\<close>

definition world0 :: world where
  "world0 = \<lparr>executed = [], health_polls = 0, probes_run = []\<rparr>"

definition build_fails :: shell where
  "build_fails history command =
     (if command = ''docker-compose build --no-cache'' then Exited 1 else Exited 0)"

definition all_succeed :: shell where
  "all_succeed history command = Exited 0"

definition always_ready :: "nat \<Rightarrow> health_json http_result" where
  "always_ready i = Response 200 (HealthDoc (Some ''healthy'') True)"

definition still_loading :: "nat \<Rightarrow> health_json http_result" where
  "still_loading i = Response 200 (HealthDoc (Some ''starting'') False)"

definition ready_at_third :: "nat \<Rightarrow> health_json http_result" where
  "ready_at_third i =
     (if i = 0 then Raised ''connection refused''
      else if i = 1 then Response 503 (NotJson ''no body'')
      else Response 200 (HealthDoc (Some ''healthy'') True))"

definition never_ready :: "nat \<Rightarrow> health_json http_result" where
  "never_ready i = Raised ''connection refused''"

definition sample_env :: "shell \<Rightarrow> (nat \<Rightarrow> health_json http_result) \<Rightarrow> env" where
  "sample_env sh h =
     \<lparr>shell_of = sh, health_poll = h, smoke_import_ok = True,
      smoke_health = Response 200 (HealthDoc (Some ''healthy'') True),
      smoke_predict = Response 200 (PredictDoc True (Some (Num (9 / 10)))),
      smoke_metrics = Response 200 ''inference_requests_total 3'',
      smoke_service = (\<lambda>url. Response 200 ())\<rparr>"

definition sample_results :: "probe_result list" where
  "sample_results =
     [(''Health Check'', PASS, Fixed ''Service is healthy''),
      (''MLflow'', SKIP, NotRunningOptional ''refused'')]"

definition all_down :: "string \<Rightarrow> unit http_result" where
  "all_down url = Raised ''connection refused''"

definition new_monitor :: monitor where
  "new_monitor = \<lparr>predictions_log = [], log_file = None\<rparr>"

definition two_days :: int where
  "two_days = 2 * hours24"

definition degraded_monitor :: monitor where
  "degraded_monitor =
     snd (log_prediction Written two_days two_days ''b.jpg'' ''dog'' (Some ''cat'') (Some (8 / 10))
       (snd (log_prediction Written 0 0 ''a.jpg'' ''cat'' (Some ''cat'') (Some (9 / 10)) new_monitor)))"

definition unlabeled_monitor :: monitor where
  "unlabeled_monitor =
     snd (log_prediction Written 5 6 ''b.jpg'' ''dog'' (Some []) (Some (1 / 2))
       (snd (log_prediction Written 1 2 ''a.jpg'' ''cat'' None (Some (9 / 10)) new_monitor)))"

definition three_logged :: "int \<Rightarrow> int \<Rightarrow> int \<Rightarrow> monitor" where
  "three_logged t1 t2 t3 =
     snd (log_prediction Written t3 t3 ''c.jpg'' ''dog'' (Some ''dog'') (Some (7 / 10))
       (snd (log_prediction Written t2 t2 ''b.jpg'' ''dog'' (Some ''cat'') (Some (8 / 10))
         (snd (log_prediction Written t1 t1 ''a.jpg'' ''cat'' (Some ''cat'') (Some (9 / 10))
           new_monitor)))))"

definition pred_of :: "string \<Rightarrow> rat \<Rightarrow> api_prediction" where
  "pred_of cls conf =
     \<lparr>ap_image_path = ''img.jpg'', ap_predicted_class = cls, ap_confidence = conf,
      ap_probabilities = [(cls, conf)]\<rparr>"

definition flaky_env :: eval_env where
  "flaky_env =
     \<lparr>test_dir = (\<lambda>c. if c = ''cat'' then Some [''c1.jpg'', ''c2.jpg''] else None),
      api = (\<lambda>p. if p = ''c1.jpg'' then Response 500 None
                  else Response 200 (Some (''cat'', 9 / 10, [(''cat'', 9 / 10)]))),
      output_write = Written,
      clock = 0\<rparr>"

section \<open>Facts about the deployment loops\<close>

text \<open>
  With \<open>check\<close> set, \<open>run_command\<close> succeeds exactly on exit code 0, and always records
  the command.
\<close>

lemma run_command_ok:
  "run_command sh c True w = (sh (executed w) c = Exited 0, w\<lparr>executed := executed w @ [c]\<rparr>)"
  by (simp add: run_command_def split: proc_result.splits)

text \<open>
  The command loop stops at the first command that fails: the commands before it and the
  failing one have run, in order, and nothing else.
\<close>

lemma run_commands_first_failure:
  assumes "i < length cmds"
    and "\<forall>j<i. sh (executed w @ take j cmds) (cmds ! j) = Exited 0"
    and "sh (executed w @ take i cmds) (cmds ! i) \<noteq> Exited 0"
  shows "run_commands sh cmds w = (False, w\<lparr>executed := executed w @ take (Suc i) cmds\<rparr>)"
  using assms
proof (induction cmds arbitrary: i w)
  case Nil
  then show ?case by simp
next
  case (Cons c cs)
  show ?case
  proof (cases i)
    case 0
    with Cons.prems show ?thesis by (simp add: run_command_ok)
  next
    case (Suc k)
    let ?w = "w\<lparr>executed := executed w @ [c]\<rparr>"
    from Cons.prems Suc have first: "sh (executed w) c = Exited 0" by fastforce
    have k: "k < length cs" using Cons.prems Suc by simp
    have before: "\<forall>j<k. sh (executed ?w @ take j cs) (cs ! j) = Exited 0"
    proof (intro allI impI)
      fix j assume "j < k"
      then have "Suc j < i" using Suc by simp
      with Cons.prems(2) have "sh (executed w @ take (Suc j) (c # cs)) ((c # cs) ! Suc j) = Exited 0"
        by blast
      then show "sh (executed ?w @ take j cs) (cs ! j) = Exited 0" by simp
    qed
    have at: "sh (executed ?w @ take k cs) (cs ! k) \<noteq> Exited 0"
      using Cons.prems(3) Suc by simp
    from Cons.IH [OF k before at] first show ?thesis
      by (simp add: run_command_ok Suc)
  qed
qed

text \<open>
Whatever happens, the loop runs a prefix of its commands and touches nothing else.
\<close>

lemma run_commands_prefix:
  "\<exists>k\<le>length cmds. executed (snd (run_commands sh cmds w)) = executed w @ take k cmds
      \<and> health_polls (snd (run_commands sh cmds w)) = health_polls w
      \<and> probes_run (snd (run_commands sh cmds w)) = probes_run w"
proof (induction cmds arbitrary: w)
  case Nil
  then show ?case by simp
next
  case (Cons c cs)
  show ?case
  proof (cases "sh (executed w) c = Exited 0")
    case False
    then have "run_commands sh (c # cs) w = (False, w\<lparr>executed := executed w @ [c]\<rparr>)"
      by (simp add: run_command_ok)
    then show ?thesis by (intro exI [of _ 1]) simp
  next
    case True
    let ?w = "w\<lparr>executed := executed w @ [c]\<rparr>"
    from True have eq: "run_commands sh (c # cs) w = run_commands sh cs ?w"
      by (simp add: run_command_ok)
    from Cons.IH [of ?w] obtain k where "k \<le> length cs"
      and "executed (snd (run_commands sh cs ?w)) = executed ?w @ take k cs"
      and "health_polls (snd (run_commands sh cs ?w)) = health_polls ?w"
      and "probes_run (snd (run_commands sh cs ?w)) = probes_run ?w"
      by blast
    then show ?thesis unfolding eq by (intro exI [of _ "Suc k"]) simp
  qed
qed

text \<open>
The wait loop: its result, the number of polls it makes, and what it leaves alone.
\<close>

lemma wait_loop_result:
  "fst (wait_loop h is w) = (\<exists>i\<in>set is. \<exists>b. h i = Response 200 b)"
  by (induction "is" arbitrary: w) (auto simp: Let_def split: http_result.splits)

lemma wait_loop_polls:
  "health_polls (snd (wait_loop h is w)) \<le> health_polls w + length is"
proof (induction "is" arbitrary: w)
  case Nil
  then show ?case by simp
next
  case (Cons i rest)
  have "health_polls (snd (wait_loop h rest (w\<lparr>health_polls := Suc (health_polls w)\<rparr>)))
      \<le> Suc (health_polls w) + length rest"
    using Cons.IH [of "w\<lparr>health_polls := Suc (health_polls w)\<rparr>"] by simp
  then show ?case by (auto simp: Let_def split: http_result.splits)
qed

lemma wait_loop_timeout_polls:
  "\<not> fst (wait_loop h is w) \<Longrightarrow> health_polls (snd (wait_loop h is w)) = health_polls w + length is"
  by (induction "is" arbitrary: w) (auto simp: Let_def split: http_result.splits if_splits)

lemma wait_loop_frame:
  "executed (snd (wait_loop h is w)) = executed w \<and> probes_run (snd (wait_loop h is w)) = probes_run w"
  by (induction "is" arbitrary: w) (auto simp: Let_def split: http_result.splits)

text \<open>
Waiting and smoke testing run no command.
\<close>

lemma deploy_verify_executed: "executed (snd (deploy_verify e run_tests w)) = executed w"
proof -
  have "executed (snd (wait_for_deployment e 300 w)) = executed w"
    by (simp add: wait_for_deployment_def wait_loop_frame)
  then show ?thesis
    by (auto simp: deploy_verify_def run_smoke_tests_def split: prod.splits)
qed

lemma run_commands_runs_first:
  "\<exists>k. 1 \<le> k \<and> k \<le> length (c # cs)
      \<and> executed (snd (run_commands sh (c # cs) w)) = executed w @ take k (c # cs)"
proof (cases "sh (executed w) c = Exited 0")
  case False
  then have "run_commands sh (c # cs) w = (False, w\<lparr>executed := executed w @ [c]\<rparr>)"
    by (simp add: run_command_ok)
  then show ?thesis by (intro exI [of _ 1]) simp
next
  case True
  let ?w = "w\<lparr>executed := executed w @ [c]\<rparr>"
  from True have eq: "run_commands sh (c # cs) w = run_commands sh cs ?w"
    by (simp add: run_command_ok)
  from run_commands_prefix [of cs sh ?w] obtain k where "k \<le> length cs"
    and "executed (snd (run_commands sh cs ?w)) = executed ?w @ take k cs"
    by blast
  then show ?thesis unfolding eq by (intro exI [of _ "Suc k"]) simp
qed

lemma run_commands_then_verify_first:
  "\<exists>k. 1 \<le> k \<and> k \<le> length (c # cs) \<and>
     executed (snd (case run_commands sh (c # cs) w of
                      (ok, w1) \<Rightarrow> if \<not> ok then (False, w1) else deploy_verify e run_tests w1))
       = executed w @ take k (c # cs)"
proof -
  obtain ok w1 where r: "run_commands sh (c # cs) w = (ok, w1)"
    by (cases "run_commands sh (c # cs) w")
  from run_commands_runs_first [of c cs sh w] r obtain k
    where "1 \<le> k" "k \<le> length (c # cs)" "executed w1 = executed w @ take k (c # cs)" by auto
  then show ?thesis using r by (auto simp: deploy_verify_executed)
qed

lemma deploy_docker_trace:
  "\<exists>k. 1 \<le> k \<and> k \<le> 3 \<and>
     executed (snd (deploy e ''docker'' run_tests w)) = executed w @ take k docker_commands"
  using run_commands_then_verify_first
    [where c = "''docker-compose down''"
       and cs = "[''docker-compose build --no-cache'', ''docker-compose up -d'']"
       and sh = "shell_of e" and w = w and e = e and run_tests = run_tests]
  unfolding deploy_def deploy_docker_compose_def docker_commands_def
  by (simp add: numeral_3_eq_3)

lemma deploy_k8s_trace:
  "\<exists>k. 1 \<le> k \<and> k \<le> 3 \<and>
     executed (snd (deploy e ''k8s'' run_tests w)) = executed w @ take k k8s_commands"
  using run_commands_then_verify_first
    [where c = "''kubectl apply -f k8s/''"
       and cs = "[''kubectl rollout status deployment/cats-dogs-inference'', ''kubectl get services'']"
       and sh = "shell_of e" and w = w and e = e and run_tests = run_tests]
  unfolding deploy_def deploy_kubernetes_def k8s_commands_def
  by (simp add: numeral_3_eq_3)

section \<open>Facts about the smoke tests\<close>

lemma tally_counts:
  "tally rs (p, f, s) =
     (p + length (filter (\<lambda>r. fst (snd r) = PASS) rs),
      f + length (filter (\<lambda>r. fst (snd r) = FAIL) rs),
      s + length (filter (\<lambda>r. fst (snd r) \<noteq> PASS \<and> fst (snd r) \<noteq> FAIL) rs))"
  by (induction rs "(p, f, s)" arbitrary: p f s rule: tally.induct) auto

lemma verdict_no_fail: "verdict rs = (length (filter (\<lambda>r. fst (snd r) = FAIL) rs) = 0)"
  by (simp add: verdict_def tally_counts)

lemma services_loop_statuses:
  "map name_status (snd (services_loop get services all_pass rs)) =
     map name_status rs @
     map (\<lambda>(service_name, url). (service_name, spec_service_status (service_name = ''MLflow'') (get url)))
       services"
  by (induction get services all_pass rs rule: services_loop.induct)
     (auto simp: name_status_def spec_service_status_def split: http_result.splits)

section \<open>Facts about the monitor and the evaluator\<close>

lemma set_unique: "set (unique xs) = set xs"
proof (induction xs rule: unique.induct)
  case 1
  then show ?case by simp
next
  case (2 x xs)
  then show ?case by auto
qed

lemma set_labels_of: "set (labels_of ps) = {c. \<exists>p\<in>set ps. actual_class p = Some c}"
  by (induction ps) (auto split: option.splits)

text \<open>
  Every division of \<open>get_performance_metrics\<close> has a non-zero divisor: a class that is
  looked at has a record, and the recent ratio is guarded.
\<close>

lemma class_accuracy_loop_total:
  "set classes \<subseteq> set (labels_of df) \<Longrightarrow> \<exists>r. class_accuracy_loop df classes acc = Inr r"
proof (induction classes arbitrary: acc)
  case Nil
  then show ?case by simp
next
  case (Cons c cs)
  from Cons.prems obtain p where "p \<in> set df" "actual_class p = Some c"
    by (auto simp: set_labels_of)
  then have "filter (\<lambda>p. actual_class p = Some c) df \<noteq> []"
    by (auto simp: filter_empty_conv)
  moreover from Cons.prems have "set cs \<subseteq> set (labels_of df)" by simp
  ultimately show ?case using Cons.IH by (simp add: py_div_def Let_def)
qed

lemma recent_accuracy_of_total: "\<exists>r. recent_accuracy_of ps = Inr r"
  by (simp add: recent_accuracy_of_def py_div_def Let_def)

lemma get_performance_metrics_total: "\<exists>r. get_performance_metrics now stamp m = Inr r"
proof -
  let ?df = "filter (\<lambda>p. truthy (actual_class p)) (predictions_log m)"
  obtain ca where ca: "class_accuracy_loop ?df (unique (labels_of ?df)) [] = Inr ca"
    using class_accuracy_loop_total [of "unique (labels_of ?df)" ?df "[]"]
    by (auto simp: set_unique)
  obtain ra where ra: "recent_accuracy_of (filter (\<lambda>p. now - hours24 < timestamp p) ?df) = Inr ra"
    using recent_accuracy_of_total by blast
  show ?thesis
    by (simp add: get_performance_metrics_def Let_def py_div_def ca ra del: filter_filter)
qed

text \<open>
  \<open>check_model_drift\<close> answers \<open>False\<close> when the recent window is empty, and
  \<open>log_prediction\<close> appends one entry and rewrites the document before it formats its
  message.
\<close>

lemma check_model_drift_recent_zero:
  "get_performance_metrics now stamp m = Inr (Some s) \<Longrightarrow> recent_predictions_24h s = 0 \<Longrightarrow>
     check_model_drift now stamp threshold m = Inr False"
  by (auto simp: check_model_drift_def get_performance_metrics_def Let_def recent_accuracy_of_def
      split: if_splits sum.splits simp del: filter_filter)

lemma log_prediction_appends_and_saves:
  "predictions_log (snd (log_prediction outcome now now_save path predicted actual conf m))
     = predictions_log m @
       [\<lparr>timestamp = now, image_path = path, predicted_class = predicted, actual_class = actual,
         confidence = conf,
         correct = (if truthy actual then Some (actual = Some predicted) else None)\<rparr>]
   \<and> (outcome = Written \<longrightarrow>
        log_file (snd (log_prediction outcome now now_save path predicted actual conf m)) =
          Some (Document \<lparr>doc_last_updated = now_save,
                doc_total_predictions = Suc (length (predictions_log m)),
                doc_predictions =
                  predictions_log (snd (log_prediction outcome now now_save path predicted actual conf m))\<rparr>))
   \<and> (fst (log_prediction outcome now now_save path predicted actual conf m) = Inr ()) = (conf \<noteq> None)"
  by (auto simp: log_prediction_def save_logs_def Let_def split: option.splits write_result.splits)

lemma load_classes_lengths: "length (fst (load_classes dir cs)) = length (snd (load_classes dir cs))"
  by (induction cs) (auto simp: Let_def split: prod.splits option.splits)

section \<open>The claims\<close>

text \<open>
  C1. \<open>check_model_drift\<close> is claimed to return false when the recent window holds no
  labeled record and otherwise to return true exactly when the overall accuracy exceeds
  the recent accuracy by more than the threshold. The code tests \<open>recent_acc == 0\<close> under
  the comment "No recent data", so a recent window whose records are all wrong is taken
  for an empty one. Here the log holds one old correct record and one recent wrong one:
  the recent count is 1, the drift is 50 points against a threshold of 5, and the code
  answers \<open>False\<close>.
\<close>

theorem check_model_drift_misses_total_degradation:
  "get_performance_metrics (two_days + 1) (two_days + 1) degraded_monitor =
     Inr (Some \<lparr>overall_accuracy = 50,
                total_predictions = 2,
                recent_accuracy_24h = 0,
                recent_predictions_24h = 1,
                average_confidence = Some (17 / 20),
                confidence_min = Some (8 / 10),
                confidence_max = Some (9 / 10),
                class_accuracy = [(''cat'', 50)],
                last_updated = two_days + 1\<rparr>)
   \<and> check_model_drift (two_days + 1) (two_days + 1) 5 degraded_monitor = Inr False"
  by (simp add: check_model_drift_def get_performance_metrics_def degraded_monitor_def
      log_prediction_def save_logs_def new_monitor_def truthy_def two_days_def hours24_def
      py_div_def count_correct_def recent_accuracy_of_def average_of_def smallest_of_def
      largest_of_def Let_def)

text \<open>
  C2 (as amended). \<open>wait_for_deployment\<close> returns true exactly when one of its first
  \<open>max_wait // 10\<close> polls answers with status code 200, whatever the body says. It makes at
  most \<open>max_wait // 10\<close> polls, which is at most the ceiling of \<open>max_wait / 10\<close> and at most
  30 for the default of 300 seconds, and it has made all of them when it returns false.
\<close>

theorem wait_for_deployment_bounded:
  "fst (wait_for_deployment e max_wait w) =
     (\<exists>i < nat (max_wait div 10). \<exists>body. health_poll e i = Response 200 body)
   \<and> health_polls (snd (wait_for_deployment e max_wait w)) \<le> health_polls w + nat (max_wait div 10)
   \<and> (\<not> fst (wait_for_deployment e max_wait w) \<longrightarrow>
        health_polls (snd (wait_for_deployment e max_wait w)) = health_polls w + nat (max_wait div 10))
   \<and> (0 \<le> max_wait \<longrightarrow> int (nat (max_wait div 10)) \<le> \<lceil>real_of_int max_wait / 10\<rceil>)
   \<and> health_polls (snd (wait_for_deployment e 300 w)) \<le> health_polls w + 30"
proof -
  let ?n = "nat (max_wait div 10)"
  have a: "fst (wait_for_deployment e max_wait w) =
     (\<exists>i < ?n. \<exists>body. health_poll e i = Response 200 body)"
    unfolding wait_for_deployment_def wait_loop_result by auto
  have b: "health_polls (snd (wait_for_deployment e max_wait w)) \<le> health_polls w + ?n"
    unfolding wait_for_deployment_def using wait_loop_polls [of "health_poll e" "[0..<?n]" w]
    by simp
  have c: "\<not> fst (wait_for_deployment e max_wait w) \<longrightarrow>
        health_polls (snd (wait_for_deployment e max_wait w)) = health_polls w + ?n"
    unfolding wait_for_deployment_def
    using wait_loop_timeout_polls [of "health_poll e" "[0..<?n]" w] by simp
  have d: "0 \<le> max_wait \<longrightarrow> int ?n \<le> \<lceil>real_of_int max_wait / 10\<rceil>"
  proof
    assume "0 \<le> max_wait"
    then have "int ?n = max_wait div 10" by simp
    also have "\<dots> = \<lfloor>real_of_int max_wait / 10\<rfloor>" using floor_divide_of_int_eq [of max_wait 10, where ?'a = real] by simp
    also have "\<dots> \<le> \<lceil>real_of_int max_wait / 10\<rceil>" by (rule floor_le_ceiling)
    finally show "int ?n \<le> \<lceil>real_of_int max_wait / 10\<rceil>" .
  qed
  have dflt: "health_polls (snd (wait_for_deployment e 300 w)) \<le> health_polls w + 30"
    unfolding wait_for_deployment_def using wait_loop_polls [of "health_poll e" "[0..<30]" w]
    by simp
  from a b c d dflt show ?thesis by simp
qed

theorem wait_for_deployment_bounded_witness:
  "fst (wait_for_deployment (sample_env build_fails ready_at_third) 300 world0)
   \<and> health_polls (snd (wait_for_deployment (sample_env build_fails ready_at_third) 300 world0)) \<le> 30
   \<and> ready_at_third 2 = Response 200 (HealthDoc (Some ''healthy'') True)"
proof -
  have "\<exists>i<nat (300 div 10). \<exists>body. ready_at_third i = Response 200 body"
    by (rule exI [of _ 2]) (simp add: ready_at_third_def)
  then show ?thesis
    using wait_for_deployment_bounded [of "sample_env build_fails ready_at_third" 300 world0]
    by (simp add: sample_env_def world0_def ready_at_third_def)
qed

text \<open>
  C2 as stated asks for a body that reports a ready service. An endpoint that answers 200
  while still loading ends the wait at the first poll with \<open>True\<close>, although that poll is
  not healthy in the specification's sense.
\<close>

theorem wait_for_deployment_status_only_counterexample:
  "fst (wait_for_deployment (sample_env build_fails still_loading) 300 world0)
   \<and> health_polls (snd (wait_for_deployment (sample_env build_fails still_loading) 300 world0)) = 1
   \<and> \<not> spec_healthy_poll (health_poll (sample_env build_fails still_loading) 0)"
  by (simp add: wait_for_deployment_def sample_env_def still_loading_def world0_def
      spec_healthy_poll_def upt_rec Let_def)

text \<open>
  C3. \<open>log_prediction\<close> is claimed to append one record, rewrite the document and return
  normally also when true label and confidence are absent. With no confidence the entry
  is appended and saved, and then formatting the log message raises \<open>TypeError\<close>.
\<close>

theorem log_prediction_without_confidence_raises:
  "log_prediction Written 1 2 ''a.jpg'' ''cat'' None None new_monitor =
     (Inl TypeError,
      \<lparr>predictions_log =
         [\<lparr>timestamp = 1, image_path = ''a.jpg'', predicted_class = ''cat'',
           actual_class = None, confidence = None, correct = None\<rparr>],
       log_file =
         Some (Document
           \<lparr>doc_last_updated = 2, doc_total_predictions = 1,
            doc_predictions =
              [\<lparr>timestamp = 1, image_path = ''a.jpg'', predicted_class = ''cat'',
                actual_class = None, confidence = None, correct = None\<rparr>]\<rparr>)\<rparr>)"
  by (simp add: log_prediction_def save_logs_def new_monitor_def truthy_def Let_def)

text \<open>
  C4. For both plans: when command \<open>i\<close> of the plan is the first to fail, \<open>deploy\<close>
  returns \<open>False\<close> having run exactly the commands \<open>0..i\<close> in the plan's order; no later
  command runs, no health poll is made and no smoke test is run.
\<close>

theorem deploy_aborts_at_first_failed_command:
  assumes "(deployment_type = ''docker'' \<and> cmds = docker_commands)
         \<or> (deployment_type = ''k8s'' \<and> cmds = k8s_commands)"
    and "i < length cmds"
    and "\<forall>j<i. shell_of e (executed w @ take j cmds) (cmds ! j) = Exited 0"
    and "shell_of e (executed w @ take i cmds) (cmds ! i) \<noteq> Exited 0"
  shows "deploy e deployment_type run_tests w =
           (False, w\<lparr>executed := executed w @ take (Suc i) cmds\<rparr>)"
proof -
  have loop: "run_commands (shell_of e) cmds w =
      (False, w\<lparr>executed := executed w @ take (Suc i) cmds\<rparr>)"
    using assms(2-4) by (rule run_commands_first_failure)
  from assms(1) show ?thesis
  proof
    assume "deployment_type = ''docker'' \<and> cmds = docker_commands"
    with loop show ?thesis by (simp add: deploy_def deploy_docker_compose_def)
  next
    assume "deployment_type = ''k8s'' \<and> cmds = k8s_commands"
    with loop show ?thesis by (simp add: deploy_def deploy_kubernetes_def)
  qed
qed

theorem deploy_aborts_at_first_failed_command_witness:
  "deploy (sample_env build_fails always_ready) ''docker'' True world0 =
     (False, world0\<lparr>executed := [''docker-compose down'', ''docker-compose build --no-cache'']\<rparr>)"
  using deploy_aborts_at_first_failed_command
    [of "''docker''" docker_commands 1 "sample_env build_fails always_ready" world0 True]
  by (simp add: docker_commands_def sample_env_def build_fails_def world0_def)

text \<open>
  C5. \<open>run_all_tests\<close> passes exactly when none of the recorded results is a Fail, and
  removing the Skip results from a list of results does not change its verdict.
\<close>

theorem run_all_tests_pass_iff_no_fail:
  "fst (run_all_tests e rs) =
     (length (filter (\<lambda>r. fst (snd r) = FAIL) (snd (run_all_tests e rs))) = 0)
   \<and> verdict results = (length (filter (\<lambda>r. fst (snd r) = FAIL) results) = 0)
   \<and> verdict (filter (\<lambda>r. fst (snd r) \<noteq> SKIP) results) = verdict results"
proof -
  have "filter (\<lambda>r. fst (snd r) = FAIL) (filter (\<lambda>r. fst (snd r) \<noteq> SKIP) results)
      = filter (\<lambda>r. fst (snd r) = FAIL) results"
    by (induction results) auto
  then show ?thesis
    by (simp add: run_all_tests_def Let_def verdict_no_fail)
qed

theorem run_all_tests_pass_iff_no_fail_witness:
  "verdict sample_results
   \<and> fst (run_all_tests (sample_env build_fails always_ready) [])
   \<and> \<not> fst (run_all_tests (sample_env build_fails always_ready)
              [(''Metrics'', FAIL, Fixed ''Metrics not available'')])"
  using run_all_tests_pass_iff_no_fail [of "sample_env build_fails always_ready" "[]" sample_results]
    run_all_tests_pass_iff_no_fail [of "sample_env build_fails always_ready"
       "[(''Metrics'', FAIL, Fixed ''Metrics not available'')]" sample_results]
  by (simp add: sample_results_def run_all_tests_def test_health_endpoint_def
      test_prediction_endpoint_def test_metrics_endpoint_def test_monitoring_services_def
      monitoring_services_def sample_env_def Let_def)

text \<open>
  C6. When the predictions and the true labels differ in number, \<open>evaluate_performance\<close>
  raises \<open>ValueError\<close>; inside \<open>run_evaluation\<close> the fault leaves the function, no summary
  is returned and the output file is not written.
\<close>

theorem mismatch_raises_value_error:
  "(length predictions \<noteq> length true_labels \<longrightarrow>
      evaluate_performance now predictions true_labels = Inl ValueError)
   \<and> (fst (load_test_data e) \<noteq> []
        \<and> length (predict_batch (api e) (fst (load_test_data e))) \<noteq> length (snd (load_test_data e)) \<longrightarrow>
      run_evaluation e save_to_file output_file = (Inl ValueError, output_file))"
  by (auto simp: evaluate_performance_def run_evaluation_def Let_def split: prod.splits)

theorem mismatch_raises_value_error_witness:
  "run_evaluation flaky_env True None = (Inl ValueError, None)
   \<and> load_test_data flaky_env = ([''c1.jpg'', ''c2.jpg''], [''cat'', ''cat''])
   \<and> length (predict_batch (api flaky_env) [''c1.jpg'', ''c2.jpg'']) = 1
   \<and> evaluate_performance 0 [pred_of ''cat'' (9 / 10)] [''cat'', ''cat''] = Inl ValueError"
proof -
  have data: "load_test_data flaky_env = ([''c1.jpg'', ''c2.jpg''], [''cat'', ''cat''])"
    by (simp add: load_test_data_def flaky_env_def Let_def)
  have batch: "length (predict_batch (api flaky_env) [''c1.jpg'', ''c2.jpg'']) = 1"
    by (simp add: flaky_env_def)
  from data batch show ?thesis
    using mismatch_raises_value_error [of "[pred_of ''cat'' (9 / 10)]" "[''cat'', ''cat'']" 0 flaky_env True None]
    by simp
qed

text \<open>
  C7. On a log without a labeled record (the empty log included)
  \<open>get_performance_metrics\<close> returns the empty snapshot, and on no log at all does it
  divide by zero.
\<close>

theorem snapshot_empty_without_labels:
  "(filter (\<lambda>p. truthy (actual_class p)) (predictions_log m) = [] \<longrightarrow>
      get_performance_metrics now stamp m = Inr None)
   \<and> get_performance_metrics now stamp m \<noteq> Inl ZeroDivisionError"
proof -
  have "filter (\<lambda>p. truthy (actual_class p)) (predictions_log m) = [] \<longrightarrow>
      get_performance_metrics now stamp m = Inr None"
    by (simp add: get_performance_metrics_def Let_def)
  moreover have "get_performance_metrics now stamp m \<noteq> Inl ZeroDivisionError"
    using get_performance_metrics_total [of now stamp m] by auto
  ultimately show ?thesis by simp
qed

theorem snapshot_empty_without_labels_witness:
  "get_performance_metrics 10 11 unlabeled_monitor = Inr None
   \<and> length (predictions_log unlabeled_monitor) = 2
   \<and> get_performance_metrics 10 11 new_monitor = Inr None"
proof -
  have "filter (\<lambda>p. truthy (actual_class p)) (predictions_log unlabeled_monitor) = []"
    by (simp add: unlabeled_monitor_def log_prediction_def save_logs_def new_monitor_def
        truthy_def Let_def)
  moreover have "filter (\<lambda>p. truthy (actual_class p)) (predictions_log new_monitor) = []"
    by (simp add: new_monitor_def)
  ultimately show ?thesis
    using snapshot_empty_without_labels [of unlabeled_monitor 10 11]
      snapshot_empty_without_labels [of new_monitor 10 11]
    by (simp add: unlabeled_monitor_def log_prediction_def save_logs_def new_monitor_def Let_def)
qed

text \<open>
  C8 (as amended). On every path \<open>deploy\<close> runs a non-empty prefix of the plan's
  provisioning commands and nothing else, so no teardown is run in answer to a failure.
  For the compose plan \<open>docker-compose down\<close>, which is both the teardown command and the
  first provisioning command, is run on every path as the first step and nowhere after
  it; the teardown command of the cluster plan is never run. \<open>rollback\<close> is a separate
  entry point that runs exactly the teardown command.
\<close>

theorem deploy_executes_plan_prefix_only:
  "(\<exists>k. 1 \<le> k \<and> k \<le> 3 \<and>
       executed (snd (deploy e ''docker'' run_tests w)) = executed w @ take k docker_commands)
   \<and> (\<exists>rest. executed (snd (deploy e ''docker'' run_tests w))
                = executed w @ ''docker-compose down'' # rest
              \<and> ''docker-compose down'' \<notin> set rest)
   \<and> (\<exists>k. 1 \<le> k \<and> k \<le> 3 \<and>
       executed (snd (deploy e ''k8s'' run_tests w)) = executed w @ take k k8s_commands)
   \<and> ''kubectl rollout undo deployment/cats-dogs-inference'' \<notin>
        set (drop (length (executed w)) (executed (snd (deploy e ''k8s'' run_tests w))))
   \<and> rollback e ''docker'' w = w\<lparr>executed := executed w @ [''docker-compose down'']\<rparr>
   \<and> rollback e ''k8s'' w =
        w\<lparr>executed := executed w @ [''kubectl rollout undo deployment/cats-dogs-inference'']\<rparr>"
proof -
  note d = deploy_docker_trace [of e run_tests w]
  note k = deploy_k8s_trace [of e run_tests w]
  from d obtain n where n: "1 \<le> n" "n \<le> 3"
    "executed (snd (deploy e ''docker'' run_tests w)) = executed w @ take n docker_commands"
    by blast
  have d2: "\<exists>rest. executed (snd (deploy e ''docker'' run_tests w))
                = executed w @ ''docker-compose down'' # rest
              \<and> ''docker-compose down'' \<notin> set rest"
  proof -
    from n(1) obtain j where j: "n = Suc j" by (cases n) auto
    have "take n docker_commands = ''docker-compose down'' #
        take j [''docker-compose build --no-cache'', ''docker-compose up -d'']"
      by (simp add: j docker_commands_def)
    moreover have "''docker-compose down'' \<notin>
        set (take j [''docker-compose build --no-cache'', ''docker-compose up -d''])"
      using set_take_subset [of j "[''docker-compose build --no-cache'', ''docker-compose up -d'']"]
      by auto
    ultimately show ?thesis using n(3) by simp
  qed
  from k obtain m where m: "executed (snd (deploy e ''k8s'' run_tests w)) = executed w @ take m k8s_commands"
    by blast
  have k2: "''kubectl rollout undo deployment/cats-dogs-inference'' \<notin>
        set (drop (length (executed w)) (executed (snd (deploy e ''k8s'' run_tests w))))"
  proof -
    have "set (take m k8s_commands) \<subseteq> set k8s_commands" by (rule set_take_subset)
    then have "''kubectl rollout undo deployment/cats-dogs-inference'' \<notin> set (take m k8s_commands)"
      by (auto simp: k8s_commands_def)
    then show ?thesis by (simp add: m)
  qed
  have r: "rollback e ''docker'' w = w\<lparr>executed := executed w @ [''docker-compose down'']\<rparr>"
    "rollback e ''k8s'' w =
        w\<lparr>executed := executed w @ [''kubectl rollout undo deployment/cats-dogs-inference'']\<rparr>"
    by (simp_all add: rollback_def run_command_def)
  from d d2 k k2 r show ?thesis by blast
qed

theorem deploy_executes_plan_prefix_only_witness:
  "\<not> fst (deploy (sample_env all_succeed never_ready) ''k8s'' True world0)
   \<and> ''kubectl rollout undo deployment/cats-dogs-inference'' \<notin>
        set (executed (snd (deploy (sample_env all_succeed never_ready) ''k8s'' True world0)))
   \<and> executed (rollback (sample_env all_succeed never_ready) ''k8s'' world0)
        = [''kubectl rollout undo deployment/cats-dogs-inference'']
   \<and> \<not> fst (deploy (sample_env build_fails always_ready) ''docker'' True world0)
   \<and> hd (executed (snd (deploy (sample_env build_fails always_ready) ''docker'' True world0)))
        = ''docker-compose down''
   \<and> executed (rollback (sample_env build_fails always_ready) ''docker'' world0)
        = [''docker-compose down'']"
proof -
  have "wait_loop never_ready is w = (False, w\<lparr>health_polls := health_polls w + length is\<rparr>)" for "is" w
    by (induction "is" arbitrary: w) (simp_all add: never_ready_def Let_def)
  then have a: "\<not> fst (deploy (sample_env all_succeed never_ready) ''k8s'' True world0)"
    by (simp add: deploy_def deploy_kubernetes_def k8s_commands_def run_command_def
        sample_env_def all_succeed_def deploy_verify_def wait_for_deployment_def)
  have b: "\<not> fst (deploy (sample_env build_fails always_ready) ''docker'' True world0)"
    by (simp add: deploy_def deploy_docker_compose_def docker_commands_def run_command_def
        sample_env_def build_fails_def world0_def)
  from a b show ?thesis
    using deploy_executes_plan_prefix_only [of "sample_env all_succeed never_ready" True world0]
      deploy_executes_plan_prefix_only [of "sample_env build_fails always_ready" True world0]
    by (auto simp: world0_def)
qed

text \<open>
  C8 as stated says that a failing \<open>deploy\<close> never runs the plan's teardown command. A
  compose deployment whose build fails has run \<open>docker-compose down\<close>, the very command
  that \<open>rollback\<close> runs for that plan.
\<close>

theorem deploy_runs_no_teardown_counterexample:
  "\<not> fst (deploy (sample_env build_fails always_ready) ''docker'' True world0)
   \<and> executed (snd (deploy (sample_env build_fails always_ready) ''docker'' True world0))
       = [''docker-compose down'', ''docker-compose build --no-cache'']
   \<and> executed (rollback (sample_env build_fails always_ready) ''docker'' world0)
       = [''docker-compose down'']"
  by (simp add: deploy_def deploy_docker_compose_def docker_commands_def run_command_def
      sample_env_def build_fails_def world0_def rollback_def)

text \<open>
  C9. The auxiliary-services probe records, for Grafana, Prometheus and MLflow in this
  order, the status that the specification's rule gives, with MLflow as the one optional
  service: Pass on 200, Fail on another status, and for an unreachable service Skip for
  MLflow and Fail for the other two.
\<close>

theorem monitoring_services_statuses:
  "map name_status (snd (test_monitoring_services get rs)) =
     map name_status rs @
     [(''Grafana'', spec_service_status False (get ''http://localhost:3000'')),
      (''Prometheus'', spec_service_status False (get ''http://localhost:9090'')),
      (''MLflow'', spec_service_status True (get ''http://localhost:5000''))]"
  unfolding test_monitoring_services_def services_loop_statuses
  by (simp add: monitoring_services_def)

theorem monitoring_services_statuses_witness:
  "map name_status (snd (test_monitoring_services all_down [])) =
     [(''Grafana'', FAIL), (''Prometheus'', FAIL), (''MLflow'', SKIP)]"
  using monitoring_services_statuses [of all_down "[]"]
  by (simp add: spec_service_status_def all_down_def)

text \<open>
  C10. For the three labeled predictions (cat, cat, 0.9), (dog, cat, 0.8), (dog, dog, 0.7)
  the monitor's snapshot has overall accuracy 2/3 and class accuracies 1/2 for cat and 1/1
  for dog, on its scale of percentage points; the evaluator's summary has the same three
  values as fractions.
\<close>

theorem example_accuracies:
  "(\<exists>s. get_performance_metrics now stamp (three_logged t1 t2 t3) = Inr (Some s)
        \<and> overall_accuracy s = 2 / 3 * 100
        \<and> class_accuracy s = [(''cat'', 1 / 2 * 100), (''dog'', 1 / 1 * 100)])
   \<and> (\<exists>r. evaluate_performance stamp
              [pred_of ''cat'' (9 / 10), pred_of ''dog'' (8 / 10), pred_of ''dog'' (7 / 10)]
              [''cat'', ''cat'', ''dog''] = Inr r
        \<and> ev_overall_accuracy r = 2 / 3
        \<and> cat_accuracy r = 1 / 2
        \<and> dog_accuracy r = 1 / 1)"
proof -
  obtain ra where ra: "recent_accuracy_of
      (filter (\<lambda>p. now - hours24 < timestamp p)
         (filter (\<lambda>p. truthy (actual_class p)) (predictions_log (three_logged t1 t2 t3)))) = Inr ra"
    using recent_accuracy_of_total by blast
  have log: "predictions_log (three_logged t1 t2 t3) =
     [\<lparr>timestamp = t1, image_path = ''a.jpg'', predicted_class = ''cat'',
       actual_class = Some ''cat'', confidence = Some (9 / 10), correct = Some True\<rparr>,
      \<lparr>timestamp = t2, image_path = ''b.jpg'', predicted_class = ''dog'',
       actual_class = Some ''cat'', confidence = Some (8 / 10), correct = Some False\<rparr>,
      \<lparr>timestamp = t3, image_path = ''c.jpg'', predicted_class = ''dog'',
       actual_class = Some ''dog'', confidence = Some (7 / 10), correct = Some True\<rparr>]"
    by (simp add: three_logged_def log_prediction_def save_logs_def new_monitor_def truthy_def Let_def)
  have labeled: "filter (\<lambda>p. truthy (actual_class p)) (predictions_log (three_logged t1 t2 t3))
      = predictions_log (three_logged t1 t2 t3)"
    by (simp add: log truthy_def)
  have classes: "class_accuracy_loop (predictions_log (three_logged t1 t2 t3))
      (unique (labels_of (predictions_log (three_logged t1 t2 t3)))) [] =
        Inr [(''cat'', 50), (''dog'', 100)]"
    by (simp add: log py_div_def count_correct_def Let_def)
  have overall: "py_div (of_nat (count_correct (predictions_log (three_logged t1 t2 t3))))
      (of_nat (length (predictions_log (three_logged t1 t2 t3)))) = Inr (2 / 3)"
    by (simp add: log py_div_def count_correct_def)
  have nonempty: "predictions_log (three_logged t1 t2 t3) \<noteq> []"
    by (simp add: log)
  have monitor: "\<exists>s. get_performance_metrics now stamp (three_logged t1 t2 t3) = Inr (Some s)
        \<and> overall_accuracy s = 2 / 3 * 100
        \<and> class_accuracy s = [(''cat'', 1 / 2 * 100), (''dog'', 1 / 1 * 100)]"
    using ra unfolding labeled
    by (simp add: get_performance_metrics_def Let_def labeled classes overall nonempty
        del: filter_filter)
  have evaluator: "\<exists>r. evaluate_performance stamp
              [pred_of ''cat'' (9 / 10), pred_of ''dog'' (8 / 10), pred_of ''dog'' (7 / 10)]
              [''cat'', ''cat'', ''dog''] = Inr r
        \<and> ev_overall_accuracy r = 2 / 3
        \<and> cat_accuracy r = 1 / 2
        \<and> dog_accuracy r = 1 / 1"
    by (simp add: evaluate_performance_def pred_of_def Let_def)
  from monitor evaluator show ?thesis by blast
qed

theorem example_accuracies_witness:
  "overall_accuracy (the (projr (get_performance_metrics 10 10 (three_logged 1 2 3)))) = 200 / 3
   \<and> ev_overall_accuracy (projr (evaluate_performance 10
              [pred_of ''cat'' (9 / 10), pred_of ''dog'' (8 / 10), pred_of ''dog'' (7 / 10)]
              [''cat'', ''cat'', ''dog''])) = 2 / 3"
  using example_accuracies [of 10 10 1 2 3] by auto

end
